theory Spec2Isabelle
  imports Main "HOL-Library.Word" "HOL-Library.Sublist"
begin

section \<open>Strings and buffers\<close>

text \<open>
  A Node \<open>Buffer\<close> is a sequence of bytes.  JavaScript strings are modelled as
  \<open>string\<close> (a list of 8-bit characters); every string the modelled code inspects
  is compared with ASCII literals only.
\<close>

type_synonym buffer = "8 word list"

text \<open>\<open>String.prototype.startsWith\<close>.\<close>

primrec startsWith :: "string \<Rightarrow> string \<Rightarrow> bool" where
  "startsWith s [] = True"
| "startsWith s (p # ps) = (case s of [] \<Rightarrow> False | c # cs \<Rightarrow> c = p \<and> startsWith cs ps)"

text \<open>\<open>String.prototype.includes\<close>: the needle occurs at some offset.\<close>

primrec includes_str :: "string \<Rightarrow> string \<Rightarrow> bool" where
  "includes_str [] sub = (sub = [])"
| "includes_str (c # cs) sub = (startsWith (c # cs) sub \<or> includes_str cs sub)"

section \<open>Content-type classification (utils/mime.ts, handlers/static.ts)\<close>

text \<open>
  \<open>for (const type of types) if (mimeType.startsWith(type)) ...\<close>: does any prefix of
  the table match?
\<close>

definition startsWithAny :: "string \<Rightarrow> string list \<Rightarrow> bool" where
  "startsWithAny mimeType types = list_ex (\<lambda>t. startsWith mimeType t) types"

text \<open>The two tables of \<open>shouldCompress\<close> in utils/mime.ts.\<close>

definition compressibleTypes :: "string list" where
  "compressibleTypes =
     [''text/'', ''application/javascript'', ''application/json'', ''application/xml'',
      ''application/x-javascript'', ''application/xhtml+xml'', ''image/svg+xml'',
      ''application/wasm'']"

definition nonCompressibleTypes :: "string list" where
  "nonCompressibleTypes =
     [''image/'', ''video/'', ''audio/'', ''application/pdf'', ''application/zip'',
      ''application/gzip'', ''application/x-gzip'']"

text \<open>
  \<open>shouldCompress(mimeType)\<close>: the non-compressible loop runs first and returns
  \<open>false\<close> on its first hit; only then is the compressible table scanned.
\<close>

definition shouldCompress :: "string \<Rightarrow> bool" where
  "shouldCompress mimeType =
     (if startsWithAny mimeType nonCompressibleTypes then False
      else if startsWithAny mimeType compressibleTypes then True
      else False)"

text \<open>The tables of \<open>StaticFileHandler.shouldCompressFile\<close> (no wasm, no x-gzip).\<close>

definition compressibleTypes_static :: "string list" where
  "compressibleTypes_static =
     [''text/'', ''application/javascript'', ''application/json'', ''application/xml'',
      ''application/x-javascript'', ''application/xhtml+xml'', ''image/svg+xml'']"

definition nonCompressibleTypes_static :: "string list" where
  "nonCompressibleTypes_static =
     [''image/'', ''video/'', ''audio/'', ''application/pdf'', ''application/zip'',
      ''application/gzip'']"

text \<open>
  \<open>shouldCompressFile(mimeType, size)\<close>: same order; the compressible loop tests
  \<open>mimeType.startsWith(type) && size > 1024\<close> for each entry.
\<close>

definition shouldCompressFile :: "string \<Rightarrow> nat \<Rightarrow> bool" where
  "shouldCompressFile mimeType sz =
     (if startsWithAny mimeType nonCompressibleTypes_static then False
      else if list_ex (\<lambda>t. startsWith mimeType t \<and> sz > 1024) compressibleTypes_static
      then True
      else False)"

section \<open>The memory cache (class MemoryCache)\<close>

record cacheEntry =
  ce_content :: buffer
  ce_compressed :: "buffer option"
  ce_etag :: string
  ce_lastModified :: string
  ce_mimeType :: string
  ce_mtime :: int

text \<open>
  The result of \<open>fs.statSync\<close>: whether the target is a regular file, its size and
  its modification time in milliseconds since the epoch (\<open>stat.mtime.getTime()\<close>).
\<close>

record stats =
  st_isFile :: bool
  st_size :: nat
  st_mtime :: int

text \<open>
  A JavaScript \<open>Map\<close> iterates in insertion order: an association list with distinct
  keys, oldest insertion first.  \<open>Map.set\<close> on a present key replaces the value in
  place (the key keeps its position); on an absent key it appends.
\<close>

type_synonym 'v jsmap = "(string \<times> 'v) list"

definition Map_get :: "'v jsmap \<Rightarrow> string \<Rightarrow> 'v option" where
  "Map_get m k = map_of m k"

definition Map_has :: "'v jsmap \<Rightarrow> string \<Rightarrow> bool" where
  "Map_has m k = (map_of m k \<noteq> None)"

definition Map_delete :: "'v jsmap \<Rightarrow> string \<Rightarrow> 'v jsmap" where
  "Map_delete m k = filter (\<lambda>kv. fst kv \<noteq> k) m"

primrec Map_set :: "'v jsmap \<Rightarrow> string \<Rightarrow> 'v \<Rightarrow> 'v jsmap" where
  "Map_set [] k v = [(k, v)]"
| "Map_set (kv # m) k v = (if fst kv = k then (k, v) # m else kv # Map_set m k v)"

text \<open>
  The cache object: the map, \<open>maxSize\<close> and \<open>currentSize\<close>.  Both sizes are
  JavaScript numbers; \<open>currentSize\<close> is only ever changed by adding and subtracting
  entry sizes and may become negative, so both are integers.
\<close>

record memoryCache =
  cache :: "cacheEntry jsmap"
  maxSize :: int
  currentSize :: int

text \<open>\<open>new MemoryCache(maxSize)\<close>.\<close>

definition MemoryCache_new :: "int \<Rightarrow> memoryCache" where
  "MemoryCache_new m = \<lparr>cache = [], maxSize = m, currentSize = 0\<rparr>"

text \<open>\<open>entry.content.length + (entry.compressed?.length || 0)\<close>.\<close>

definition calculateSize :: "cacheEntry \<Rightarrow> int" where
  "calculateSize entry =
     int (length (ce_content entry)) +
     (case ce_compressed entry of None \<Rightarrow> 0 | Some z \<Rightarrow> int (length z))"

text \<open>
  \<open>evictOldest\<close>: takes the first key of the map; the guard \<open>if (firstKey)\<close> is a
  truthiness test, so nothing happens on an empty map (\<open>undefined\<close>) and nothing
  happens when the first key is the empty string.
\<close>

definition evictOldest :: "memoryCache \<Rightarrow> memoryCache" where
  "evictOldest c =
     (case cache c of
        [] \<Rightarrow> c
      | (firstKey, entry) # rest \<Rightarrow>
          if firstKey \<noteq> [] then
            c\<lparr>currentSize := currentSize c - calculateSize entry,
              cache := Map_delete (cache c) firstKey\<rparr>
          else c)"

text \<open>
  \<open>get(path)\<close>: on a hit the entry is deleted and set again, which moves it to the
  end of the iteration order; the result is the entry or \<open>null\<close>.
\<close>

definition MemoryCache_get :: "memoryCache \<Rightarrow> string \<Rightarrow> cacheEntry option \<times> memoryCache" where
  "MemoryCache_get c path =
     (case Map_get (cache c) path of
        Some entry \<Rightarrow> (Some entry, c\<lparr>cache := Map_set (Map_delete (cache c) path) path entry\<rparr>)
      | None \<Rightarrow> (None, c))"

text \<open>
  The loop of \<open>set\<close>:
  \<open>while (this.currentSize + entrySize > this.maxSize && this.cache.size > 0) this.evictOldest();\<close>
  It does not return when \<open>evictOldest\<close> makes no progress, hence the option type:
  \<open>None\<close> is a loop that runs forever.
\<close>

partial_function (option) evictLoop :: "memoryCache \<Rightarrow> int \<Rightarrow> memoryCache option" where
  "evictLoop c entrySize =
     (if currentSize c + entrySize > maxSize c \<and> length (cache c) > 0
      then evictLoop (evictOldest c) entrySize
      else Some c)"

declare evictLoop.simps [code]

text \<open>What a call can do besides returning: throw.\<close>

datatype exn = StatError | HeadersSent | URIError | LibError

text \<open>
  The library functions the code calls, none of them part of this repository:
  \<^item> \<open>md5hex\<close>: \<open>crypto.createHash('md5').update(content).digest('hex')\<close>;
  \<^item> \<open>toUTCString\<close>: \<open>Date.prototype.toUTCString\<close> of the date with the given time value;
  \<^item> \<open>mimeLookup\<close>: \<open>lookup\<close> of the package mime-types (\<open>None\<close> for \<open>false\<close>);
  \<^item> \<open>gzip\<close>: \<open>zlib.gzip\<close> at level 6 (\<open>None\<close> when the callback gets an error);
  \<^item> \<open>urlParsePathname\<close>: \<open>url.parse(s, true).pathname\<close> (\<open>None\<close> for \<open>null\<close>);
  \<^item> \<open>URLPathname\<close>: \<open>new URL(s, base).pathname\<close>;
  \<^item> \<open>cwd\<close>: \<open>process.cwd()\<close>, which the path module uses to resolve relative paths.
  A left injection is a thrown exception.
\<close>

record libs =
  md5hex :: "buffer \<Rightarrow> string"
  toUTCString :: "int \<Rightarrow> string"
  mimeLookup :: "string \<Rightarrow> string option"
  gzip :: "buffer \<Rightarrow> buffer option"
  urlParsePathname :: "string \<Rightarrow> exn + string option"
  URLPathname :: "string \<Rightarrow> string \<Rightarrow> exn + string"
  cwd :: string

definition generateETag_md5 :: "libs \<Rightarrow> buffer \<Rightarrow> string" where
  "generateETag_md5 L content = ''\"'' @ md5hex L content @ ''\"''"

text \<open>
  \<open>set(path, content, mimeType, compressed?)\<close>.  The argument \<open>stat\<close> is the result of
  the call \<open>require('fs').statSync(path)\<close> that opens the method: \<open>None\<close> when it
  throws (the path does not exist), and then \<open>set\<close> throws before touching the cache.
  \<open>mkEntry\<close> is the object literal \<open>entry\<close> the method builds.
  The result is \<open>None\<close> when the eviction loop never ends, \<open>Some (Inl e)\<close> when the
  call throws (the cache is as before) and \<open>Some (Inr c')\<close> when it returns.
\<close>

definition mkEntry :: "libs \<Rightarrow> buffer \<Rightarrow> string \<Rightarrow> buffer option \<Rightarrow> stats \<Rightarrow> cacheEntry" where
  "mkEntry L content mimeType compressed st =
     \<lparr>ce_content = content, ce_compressed = compressed,
      ce_etag = generateETag_md5 L content,
      ce_lastModified = toUTCString L (st_mtime st),
      ce_mimeType = mimeType, ce_mtime = st_mtime st\<rparr>"

definition MemoryCache_set ::
  "libs \<Rightarrow> memoryCache \<Rightarrow> string \<Rightarrow> buffer \<Rightarrow> string \<Rightarrow> buffer option \<Rightarrow> stats option
     \<Rightarrow> (exn + memoryCache) option" where
  "MemoryCache_set L c path content mimeType compressed stat =
     (case stat of
        None \<Rightarrow> Some (Inl StatError)
      | Some st \<Rightarrow>
          let entry = mkEntry L content mimeType compressed st;
              entrySize = calculateSize entry
          in if entrySize > maxSize c then Some (Inr c)
             else
               let c1 = (case Map_get (cache c) path of
                           Some oldEntry \<Rightarrow> c\<lparr>currentSize := currentSize c - calculateSize oldEntry\<rparr>
                         | None \<Rightarrow> c)
               in (case evictLoop c1 entrySize of
                     None \<Rightarrow> None
                   | Some c2 \<Rightarrow>
                       Some (Inr (c2\<lparr>cache := Map_set (cache c2) path entry,
                                     currentSize := currentSize c2 + entrySize\<rparr>))))"

text \<open>\<open>delete(path)\<close>.\<close>

definition MemoryCache_delete :: "memoryCache \<Rightarrow> string \<Rightarrow> memoryCache" where
  "MemoryCache_delete c path =
     (case Map_get (cache c) path of
        Some entry \<Rightarrow> c\<lparr>currentSize := currentSize c - calculateSize entry,
                        cache := Map_delete (cache c) path\<rparr>
      | None \<Rightarrow> c)"

text \<open>\<open>clear()\<close>.\<close>

definition MemoryCache_clear :: "memoryCache \<Rightarrow> memoryCache" where
  "MemoryCache_clear c = c\<lparr>cache := [], currentSize := 0\<rparr>"

text \<open>\<open>isModified(path, mtime)\<close>: \<open>!entry || entry.mtime !== mtime\<close>.\<close>

definition isModified :: "memoryCache \<Rightarrow> string \<Rightarrow> int \<Rightarrow> bool" where
  "isModified c path t =
     (case Map_get (cache c) path of None \<Rightarrow> True | Some entry \<Rightarrow> ce_mtime entry \<noteq> t)"

text \<open>\<open>getStats()\<close>: size, count, maxSize.\<close>

definition getStats :: "memoryCache \<Rightarrow> int \<times> nat \<times> int" where
  "getStats c = (currentSize c, length (cache c), maxSize c)"

subsection \<open>Sequences of cache operations\<close>

datatype cacheOp =
  OpSet string buffer string "buffer option" "stats option"
| OpGet string
| OpDelete string
| OpClear

text \<open>
  One operation on the cache object.  A \<open>set\<close> that throws leaves the object as it
  was; a \<open>set\<close> that never returns has no state after it.
\<close>

definition applyOp :: "libs \<Rightarrow> memoryCache \<Rightarrow> cacheOp \<Rightarrow> memoryCache option" where
  "applyOp L c op =
     (case op of
        OpSet path content mimeType compressed stat \<Rightarrow>
          (case MemoryCache_set L c path content mimeType compressed stat of
             None \<Rightarrow> None
           | Some (Inl e) \<Rightarrow> Some c
           | Some (Inr c') \<Rightarrow> Some c')
      | OpGet path \<Rightarrow> Some (snd (MemoryCache_get c path))
      | OpDelete path \<Rightarrow> Some (MemoryCache_delete c path)
      | OpClear \<Rightarrow> Some (MemoryCache_clear c))"

primrec applyOps :: "libs \<Rightarrow> memoryCache \<Rightarrow> cacheOp list \<Rightarrow> memoryCache option" where
  "applyOps L c [] = Some c"
| "applyOps L c (op # ops) =
     (case applyOp L c op of None \<Rightarrow> None | Some c' \<Rightarrow> applyOps L c' ops)"

text \<open>The sum of the sizes of the entries present.\<close>

definition entriesSize :: "memoryCache \<Rightarrow> int" where
  "entriesSize c = sum_list (map (\<lambda>kv. calculateSize (snd kv)) (cache c))"

text \<open>
  The size \<open>set\<close> computes for the entry it builds, from the two buffers it is given.
\<close>

definition payloadSize :: "buffer \<Rightarrow> buffer option \<Rightarrow> int" where
  "payloadSize content compressed =
     int (length content) + (case compressed of None \<Rightarrow> 0 | Some z \<Rightarrow> int (length z))"

text \<open>
  A cache in order: the keys are distinct, none is the empty string (which is no file
  path: \<open>statSync\<close> throws on it), and \<open>currentSize\<close> is the sum of the entry sizes.
\<close>

definition cacheWf :: "memoryCache \<Rightarrow> bool" where
  "cacheWf c =
     (distinct (map fst (cache c)) \<and> [] \<notin> set (map fst (cache c))
      \<and> currentSize c = entriesSize c)"

section \<open>Node's path module (POSIX) and \<open>decodeURIComponent\<close>\<close>

text \<open>
  The path functions of Node work on strings; their results are determined by the
  segments between slashes, and that is how they are modelled here.
\<close>

text \<open>\<open>s.split(sep)\<close> for a one-character separator.\<close>

primrec splitOn :: "char \<Rightarrow> string \<Rightarrow> string list" where
  "splitOn sep [] = [[]]"
| "splitOn sep (c # cs) =
     (if c = sep then [] # splitOn sep cs
      else (case splitOn sep cs of [] \<Rightarrow> [[c]] | x # xs \<Rightarrow> (c # x) # xs))"

text \<open>\<open>parts.join('/')\<close>.\<close>

fun joinSlash :: "string list \<Rightarrow> string" where
  "joinSlash [] = []"
| "joinSlash [x] = x"
| "joinSlash (x # y # ys) = x @ CHR ''/'' # joinSlash (y # ys)"

text \<open>
  \<open>normalizeString\<close>: empty segments and \<open>.\<close> are dropped; \<open>..\<close> removes the segment
  before it, if there is one that is not itself \<open>..\<close>, and is otherwise kept only
  when the path may climb above its root.  The second argument is the result so far.
\<close>

fun normalizeSegs :: "bool \<Rightarrow> string list \<Rightarrow> string list \<Rightarrow> string list" where
  "normalizeSegs allowAboveRoot acc [] = acc"
| "normalizeSegs allowAboveRoot acc (s # ss) =
     (if s = [] \<or> s = ''.'' then normalizeSegs allowAboveRoot acc ss
      else if s = ''..'' then
        (if acc \<noteq> [] \<and> last acc \<noteq> ''..'' then normalizeSegs allowAboveRoot (butlast acc) ss
         else if allowAboveRoot then normalizeSegs allowAboveRoot (acc @ [''..'']) ss
         else normalizeSegs allowAboveRoot acc ss)
      else normalizeSegs allowAboveRoot (acc @ [s]) ss)"

text \<open>\<open>path.normalize\<close>.\<close>

definition path_normalize :: "string \<Rightarrow> string" where
  "path_normalize p =
     (if p = [] then ''.''
      else
        let isAbsolute = (hd p = CHR ''/'');
            trailingSeparator = (last p = CHR ''/'');
            q = joinSlash (normalizeSegs (\<not> isAbsolute) [] (splitOn CHR ''/'' p))
        in if q = [] then (if isAbsolute then ''/'' else if trailingSeparator then ''./'' else ''.'')
           else (if isAbsolute then ''/'' else []) @ q @ (if trailingSeparator then ''/'' else []))"

text \<open>\<open>path.join(a, b)\<close>: the non-empty arguments joined by a slash, then normalised.\<close>

definition path_join :: "string \<Rightarrow> string \<Rightarrow> string" where
  "path_join a b =
     (let parts = filter (\<lambda>x. x \<noteq> []) [a, b]
      in if parts = [] then ''.'' else path_normalize (joinSlash parts))"

text \<open>
  \<open>path.resolve(p)\<close>: a relative path is taken from the working directory; the result
  is normalised and has no trailing slash.
\<close>

definition path_resolve :: "string \<Rightarrow> string \<Rightarrow> string" where
  "path_resolve wd p =
     (let full = (if startsWith p ''/'' then p else if p = [] then wd else wd @ ''/'' @ p);
          isAbsolute = startsWith full ''/'';
          q = joinSlash (normalizeSegs (\<not> isAbsolute) [] (splitOn CHR ''/'' full))
      in if isAbsolute then CHR ''/'' # q else if q = [] then ''.'' else q)"

text \<open>The segments of a resolved path.\<close>

definition segments :: "string \<Rightarrow> string list" where
  "segments p = filter (\<lambda>x. x \<noteq> []) (splitOn CHR ''/'' p)"

text \<open>The number of leading segments two paths share.\<close>

fun commonLen :: "string list \<Rightarrow> string list \<Rightarrow> nat" where
  "commonLen (x # xs) (y # ys) = (if x = y then Suc (commonLen xs ys) else 0)"
| "commonLen xs ys = 0"

text \<open>
  \<open>path.relative(from, to)\<close>: both paths are resolved; the result climbs out of every
  segment of \<open>from\<close> beyond the common ones and then descends into the rest of \<open>to\<close>.
\<close>

definition path_relative :: "string \<Rightarrow> string \<Rightarrow> string \<Rightarrow> string" where
  "path_relative wd from to =
     (if from = to then []
      else
        let f = path_resolve wd from; t = path_resolve wd to
        in if f = t then []
           else
             let fs = segments f; ts = segments t; k = commonLen fs ts
             in joinSlash (replicate (length fs - k) ''..'' @ drop k ts))"

text \<open>
  A path lies within a root directory when the segments of the resolved root are the
  leading segments of the resolved path.
\<close>

definition withinRoot :: "string \<Rightarrow> string \<Rightarrow> string \<Rightarrow> bool" where
  "withinRoot wd root p = prefix (segments (path_resolve wd root)) (segments (path_resolve wd p))"

subsection \<open>\<open>decodeURIComponent\<close>\<close>

text \<open>
  Strings are byte sequences here (UTF-8).  A character other than \<open>%\<close> is copied.
  A \<open>%\<close> must be followed by two hexadecimal digits; an octet below 128 is the
  character itself, a larger one must start a well-formed UTF-8 sequence whose other
  octets are escaped as well.  Everything else throws URIError (\<open>None\<close>).
\<close>

definition hexDigits :: "(char \<times> nat) list" where
  "hexDigits =
     [(CHR ''0'', 0), (CHR ''1'', 1), (CHR ''2'', 2), (CHR ''3'', 3), (CHR ''4'', 4),
      (CHR ''5'', 5), (CHR ''6'', 6), (CHR ''7'', 7), (CHR ''8'', 8), (CHR ''9'', 9),
      (CHR ''a'', 10), (CHR ''b'', 11), (CHR ''c'', 12), (CHR ''d'', 13), (CHR ''e'', 14),
      (CHR ''f'', 15), (CHR ''A'', 10), (CHR ''B'', 11), (CHR ''C'', 12), (CHR ''D'', 13),
      (CHR ''E'', 14), (CHR ''F'', 15)]"

text \<open>An escape \<open>%XY\<close> at the head of the string: the octet and the rest.\<close>

fun escapedOctet :: "string \<Rightarrow> (nat \<times> string) option" where
  "escapedOctet (p # h # l # rest) =
     (if p = CHR ''%'' then
        (case (map_of hexDigits h, map_of hexDigits l) of
           (Some a, Some b) \<Rightarrow> Some (16 * a + b, rest)
         | _ \<Rightarrow> None)
      else None)"
| "escapedOctet s = None"

text \<open>\<open>n\<close> escaped continuation octets (\<open>10xxxxxx\<close>) at the head of the string.\<close>

fun continuation :: "nat \<Rightarrow> string \<Rightarrow> (nat list \<times> string) option" where
  "continuation 0 s = Some ([], s)"
| "continuation (Suc n) s =
     (case escapedOctet s of
        None \<Rightarrow> None
      | Some (b, rest) \<Rightarrow>
          if 128 \<le> b \<and> b < 192 then
            (case continuation n rest of
               None \<Rightarrow> None
             | Some (bs, rest') \<Rightarrow> Some (b # bs, rest'))
          else None)"

text \<open>
  The number of octets a leading octet announces (0 for an octet that cannot lead), and
  whether the octets are the UTF-8 encoding of a code point: no overlong form, no
  surrogate, nothing above U+10FFFF.
\<close>

definition sequenceLength :: "nat \<Rightarrow> nat" where
  "sequenceLength b =
     (if 192 \<le> b \<and> b < 224 then 2
      else if 224 \<le> b \<and> b < 240 then 3
      else if 240 \<le> b \<and> b < 248 then 4
      else 0)"

definition wellFormedUTF8 :: "nat \<Rightarrow> nat list \<Rightarrow> bool" where
  "wellFormedUTF8 b bs =
     (case bs of
        [] \<Rightarrow> False
      | b2 # _ \<Rightarrow>
          if b < 194 then False
          else if b = 224 then 160 \<le> b2
          else if b = 237 then b2 < 160
          else if b = 240 then 144 \<le> b2
          else if b = 244 then b2 < 144
          else b < 244)"

function decodeURIComponent :: "string \<Rightarrow> string option" where
  "decodeURIComponent [] = Some []"
| "decodeURIComponent (c # cs) =
     (if c \<noteq> CHR ''%'' then map_option (\<lambda>r. c # r) (decodeURIComponent cs)
      else
        (case escapedOctet (c # cs) of
           None \<Rightarrow> None
         | Some (b, rest) \<Rightarrow>
             if b < 128 then map_option (\<lambda>r. char_of b # r) (decodeURIComponent rest)
             else if sequenceLength b = 0 then None
             else
               (case continuation (sequenceLength b - 1) rest of
                  None \<Rightarrow> None
                | Some (bs, rest') \<Rightarrow>
                    if wellFormedUTF8 b bs
                    then map_option (\<lambda>r. map char_of (b # bs) @ r) (decodeURIComponent rest')
                    else None)))"
  by pat_completeness auto
termination
proof -
  have eo: "length r < length s" if "escapedOctet s = Some (b, r)" for s b r
    using that by (cases s rule: escapedOctet.cases) (auto split: if_splits option.splits)
  have co: "length r \<le> length s" if "continuation n s = Some (bs, r)" for n s bs r
    using that
  proof (induction n arbitrary: s bs r)
    case 0
    then show ?case by simp
  next
    case (Suc n)
    then show ?case
      by (fastforce split: option.splits if_splits dest: eo)
  qed
  show ?thesis
  proof (relation "measure length")
    show "wf (measure length)" by simp
  next
    fix c :: char and cs :: string
    show "(cs, c # cs) \<in> measure length" by simp
  next
    fix c cs x2 x y
    assume "escapedOctet (c # cs) = Some x2" "(x, y) = x2"
    then show "(y, c # cs) \<in> measure length"
      using eo [of "c # cs" x y] by simp
  next
    fix c cs x2 x y x2a xa ya
    assume "escapedOctet (c # cs) = Some x2" "(x, y) = x2"
      "continuation (sequenceLength x - 1) y = Some x2a" "(xa, ya) = x2a"
    then show "(ya, c # cs) \<in> measure length"
      using eo [of "c # cs" x y] co [of "sequenceLength x - 1" y xa ya] by simp
  qed
qed

declare decodeURIComponent.simps [simp del]

section \<open>Requests and responses\<close>

text \<open>
  An \<open>IncomingMessage\<close>: method, request target and headers (Node lower-cases the
  names).
\<close>

record request =
  req_method :: string
  req_url :: string
  req_headers :: "(string \<times> string) list"

definition header :: "request \<Rightarrow> string \<Rightarrow> string option" where
  "header req name = map_of (req_headers req) name"

text \<open>\<open>req.url || '/'\<close>, and the base \<open>`http://${req.headers.host}`\<close> of \<open>new URL\<close>.\<close>

definition requestTarget :: "request \<Rightarrow> string" where
  "requestTarget req = (if req_url req = [] then ''/'' else req_url req)"

definition urlBase :: "request \<Rightarrow> string" where
  "urlBase req = ''http://'' @ (case header req ''host'' of None \<Rightarrow> ''undefined'' | Some h \<Rightarrow> h)"

text \<open>
  A header value: a string, a number (\<open>Content-Length\<close>) or the compression ratio,
  which the code formats from a floating-point quotient and which is kept here as the
  pair of sizes it is computed from.
\<close>

datatype hvalue = HStr string | HNum nat | HRatio nat nat

text \<open>What \<open>res.end\<close> is given: nothing, a string or a buffer.\<close>

datatype payload = NoBody | Text string | Bytes buffer

text \<open>
  A \<open>ServerResponse\<close>: the status code, the headers set so far, whether the head has
  been written, and the data given to \<open>end\<close> once the response has ended.
\<close>

record response =
  statusCode :: nat
  res_headers :: "hvalue jsmap"
  headersSent :: bool
  ended :: "payload option"

definition freshResponse :: response where
  "freshResponse = \<lparr>statusCode = 200, res_headers = [], headersSent = False, ended = None\<rparr>"

text \<open>
  The result of a piece of code working on the response: the response it leaves behind,
  or the exception it threw together with the response at that moment.
\<close>

type_synonym outcome = "(exn \<times> response) + response"

definition andThen :: "outcome \<Rightarrow> (response \<Rightarrow> outcome) \<Rightarrow> outcome" where
  "andThen x f = (case x of Inl er \<Rightarrow> Inl er | Inr r \<Rightarrow> f r)"

text \<open>Statements one after the other.\<close>

primrec doAll :: "(response \<Rightarrow> outcome) list \<Rightarrow> response \<Rightarrow> outcome" where
  "doAll [] r = Inr r"
| "doAll (f # fs) r = andThen (f r) (doAll fs)"

text \<open>\<open>res.setHeader\<close> throws once the head has been written.\<close>

definition setHeader :: "string \<Rightarrow> hvalue \<Rightarrow> response \<Rightarrow> outcome" where
  "setHeader name v r =
     (if headersSent r then Inl (HeadersSent, r)
      else Inr (r\<lparr>res_headers := Map_set (res_headers r) name v\<rparr>))"

text \<open>\<open>res.writeHead(status, headers)\<close> throws when the head has been written before.\<close>

definition writeHead :: "nat \<Rightarrow> (string \<times> hvalue) list \<Rightarrow> response \<Rightarrow> outcome" where
  "writeHead status hs r =
     (if headersSent r then Inl (HeadersSent, r)
      else Inr (r\<lparr>statusCode := status,
                  res_headers := fold (\<lambda>kv m. Map_set m (fst kv) (snd kv)) hs (res_headers r),
                  headersSent := True\<rparr>))"

text \<open>
  \<open>res.end(data)\<close> writes the head if that has not happened and finishes the response;
  on a finished response it changes nothing.
\<close>

definition res_end :: "payload \<Rightarrow> response \<Rightarrow> outcome" where
  "res_end d r =
     (if ended r \<noteq> None then Inr r
      else Inr (r\<lparr>headersSent := True, ended := Some d\<rparr>))"

section \<open>handlers/gzip.ts\<close>

record compressionResult =
  cr_content :: buffer
  cr_originalSize :: nat
  cr_compressedSize :: nat
  cr_encoding :: string

text \<open>\<open>acceptsGzip\<close>: \<open>(req.headers['accept-encoding'] || '').includes('gzip')\<close>.\<close>

definition acceptsGzip :: "request \<Rightarrow> bool" where
  "acceptsGzip req =
     includes_str (case header req ''accept-encoding'' of None \<Rightarrow> [] | Some v \<Rightarrow> v) ''gzip''"

definition shouldServeCompressed :: "request \<Rightarrow> compressionResult option \<Rightarrow> bool" where
  "shouldServeCompressed req cr = (cr \<noteq> None \<and> acceptsGzip req)"

definition setCompressionHeaders ::
  "compressionResult option \<Rightarrow> string \<Rightarrow> string \<Rightarrow> string \<Rightarrow> response \<Rightarrow> outcome" where
  "setCompressionHeaders cr etag lastModified mimeType res =
     doAll
       ([setHeader ''Content-Type'' (HStr mimeType),
         setHeader ''ETag'' (HStr etag),
         setHeader ''Last-Modified'' (HStr lastModified),
         setHeader ''Cache-Control'' (HStr ''public, max-age=3600'')] @
        (case cr of
           Some c \<Rightarrow>
             [setHeader ''Content-Encoding'' (HStr (cr_encoding c)),
              setHeader ''Content-Length'' (HNum (cr_compressedSize c)),
              setHeader ''X-Compression-Ratio'' (HRatio (cr_compressedSize c) (cr_originalSize c))]
         | None \<Rightarrow> [setHeader ''X-Compression'' (HStr ''none'')]))
       res"

section \<open>handlers/static.ts\<close>

text \<open>
  The filesystem as the handler of one request meets it, one function for each of its
  three accesses in the order they happen: \<open>fs.statSync\<close> in \<open>getFileInfo\<close>,
  \<open>fs.readFileSync\<close> on a cache miss and \<open>statSync\<close> inside \<open>MemoryCache.set\<close>.
  \<open>None\<close> is a thrown error.  The files may change between the accesses.
\<close>

record world =
  statResolve :: "string \<Rightarrow> stats option"
  readFile :: "string \<Rightarrow> buffer option"
  statSet :: "string \<Rightarrow> stats option"

record fileInfo =
  fi_path :: string
  fi_size :: nat
  fi_mtime :: int
  fi_etag :: string
  fi_mimeType :: string
  fi_shouldCompress :: bool

record staticFileHandler =
  sfh_cache :: memoryCache
  rootDir :: string
  indexPath :: string

definition StaticFileHandler_new :: "libs \<Rightarrow> string \<Rightarrow> int \<Rightarrow> string \<Rightarrow> staticFileHandler" where
  "StaticFileHandler_new L root cacheSize index =
     \<lparr>sfh_cache = MemoryCache_new cacheSize, rootDir = path_resolve (cwd L) root,
      indexPath = index\<rparr>"

text \<open>Decimal digits of a number inside a template string.\<close>

fun showNat :: "nat \<Rightarrow> string" where
  "showNat n =
     (if n < 10 then [''0123456789'' ! n]
      else showNat (n div 10) @ [''0123456789'' ! (n mod 10)])"

declare showNat.simps [simp del]

definition showInt :: "int \<Rightarrow> string" where
  "showInt i = (if i < 0 then CHR ''-'' # showNat (nat (- i)) else showNat (nat i))"

text \<open>\<open>getMimeType\<close>: \<open>lookup(filePath) || 'application/octet-stream'\<close>.\<close>

definition getMimeType :: "libs \<Rightarrow> string \<Rightarrow> string" where
  "getMimeType L filePath =
     (case mimeLookup L filePath of
        None \<Rightarrow> ''application/octet-stream''
      | Some m \<Rightarrow> if m = [] then ''application/octet-stream'' else m)"

text \<open>\<open>generateETag(stat)\<close> of the handler: the size and the time value, in quotes.\<close>

definition generateETag :: "stats \<Rightarrow> string" where
  "generateETag stat = ''\"'' @ showNat (st_size stat) @ ''-'' @ showInt (st_mtime stat) @ ''\"''"

text \<open>
  \<open>sanitizePath\<close>: the pathname of the parsed target (\<open>/\<close> when it is null or empty),
  the index document for \<open>/\<close>, the part before the first question mark, decoded;
  a slash is put in front when there is none.  \<open>decodeURIComponent\<close> may throw.
\<close>

definition sanitizePath :: "libs \<Rightarrow> staticFileHandler \<Rightarrow> string \<Rightarrow> exn + string" where
  "sanitizePath L H requestPath =
     (case urlParsePathname L requestPath of
        Inl e \<Rightarrow> Inl e
      | Inr parsed \<Rightarrow>
          let pathname0 = (case parsed of None \<Rightarrow> ''/'' | Some p \<Rightarrow> if p = [] then ''/'' else p);
              pathname1 = (if pathname0 = ''/'' then ''/'' @ indexPath H else pathname0);
              pathname2 = hd (splitOn CHR ''?'' pathname1)
          in (case decodeURIComponent pathname2 of
                None \<Rightarrow> Inl URIError
              | Some pathname3 \<Rightarrow>
                  Inr (if \<not> startsWith pathname3 ''/'' then ''/'' @ pathname3 else pathname3)))"

text \<open>
  \<open>getFileInfo\<close>: everything is inside one \<open>try\<close> whose handler returns \<open>null\<close>, and so
  does a \<open>statSync\<close> that throws.
\<close>

definition getFileInfo :: "libs \<Rightarrow> world \<Rightarrow> staticFileHandler \<Rightarrow> string \<Rightarrow> fileInfo option" where
  "getFileInfo L W H filePath =
     (let fullPath = path_join (rootDir H) filePath
      in case statResolve W fullPath of
           None \<Rightarrow> None
         | Some stat \<Rightarrow>
             if \<not> st_isFile stat then None
             else
               let relativePath = path_relative (cwd L) (rootDir H) fullPath
               in if startsWith relativePath ''..'' then None
                  else
                    let mimeType = getMimeType L fullPath;
                        shouldCompress = shouldCompressFile mimeType (st_size stat)
                    in Some \<lparr>fi_path = fullPath, fi_size = st_size stat, fi_mtime = st_mtime stat,
                             fi_etag = generateETag stat, fi_mimeType = mimeType,
                             fi_shouldCompress = shouldCompress\<rparr>)"

definition sendError :: "nat \<Rightarrow> string \<Rightarrow> response \<Rightarrow> outcome" where
  "sendError status message res =
     doAll [writeHead status [(''Content-Type'', HStr ''text/plain'')], res_end (Text message)] res"

text \<open>A header value is used when it is truthy: present and not the empty string.\<close>

definition truthyEq :: "string option \<Rightarrow> string \<Rightarrow> bool" where
  "truthyEq h s = (case h of None \<Rightarrow> False | Some v \<Rightarrow> v \<noteq> [] \<and> v = s)"

text \<open>
  The second half of \<open>handleFileRequest\<close> (from the ETag check to \<open>res.end\<close>), once the
  content and its compressed form are at hand.
\<close>

definition respond ::
  "libs \<Rightarrow> request \<Rightarrow> fileInfo \<Rightarrow> buffer \<Rightarrow> buffer option \<Rightarrow> response \<Rightarrow> outcome" where
  "respond L req fileInfo content compressed res =
     (if truthyEq (header req ''if-none-match'') (fi_etag fileInfo)
      then doAll [writeHead 304 [], res_end NoBody] res
      else if truthyEq (header req ''if-modified-since'') (toUTCString L (fi_mtime fileInfo))
      then doAll [writeHead 304 [], res_end NoBody] res
      else
        let compressionResult =
              (case compressed of
                 Some z \<Rightarrow> Some \<lparr>cr_content = z, cr_originalSize = length content,
                                  cr_compressedSize = length z, cr_encoding = ''gzip''\<rparr>
               | None \<Rightarrow> None);
            shouldSendCompressed = shouldServeCompressed req compressionResult;
            finalContent = (case compressed of
                              Some z \<Rightarrow> if shouldSendCompressed then z else content
                            | None \<Rightarrow> content)
        in doAll
             [setCompressionHeaders compressionResult (fi_etag fileInfo)
                (toUTCString L (fi_mtime fileInfo)) (fi_mimeType fileInfo),
              setHeader ''Content-Length'' (HNum (length finalContent)),
              writeHead 200 [],
              res_end (Bytes finalContent)]
             res)"

text \<open>
  \<open>handleFileRequest\<close>.  The result is the outcome on the response and the handler
  with its cache as the call leaves it; \<open>None\<close> when the call never returns.  Whatever
  is thrown inside the \<open>try\<close> reaches its handler, which sends the 500 error.
\<close>

definition handleFileRequest ::
  "libs \<Rightarrow> world \<Rightarrow> staticFileHandler \<Rightarrow> request \<Rightarrow> response \<Rightarrow> string
     \<Rightarrow> (outcome \<times> staticFileHandler) option" where
  "handleFileRequest L W H req res filePath =
     (case getFileInfo L W H filePath of
        None \<Rightarrow> Some (sendError 404 ''File not found'' res, H)
      | Some fileInfo \<Rightarrow>
          (let (cacheEntry, c1) = MemoryCache_get (sfh_cache H) (fi_path fileInfo);
               hit = (case cacheEntry of
                        None \<Rightarrow> None
                      | Some e \<Rightarrow> if \<not> isModified c1 (fi_path fileInfo) (fi_mtime fileInfo)
                                  then Some e else None)
           in (case hit of
                 Some e \<Rightarrow>
                   (case respond L req fileInfo (ce_content e) (ce_compressed e) res of
                      Inl (ex, r) \<Rightarrow>
                        Some (sendError 500 ''Internal server error'' r, H\<lparr>sfh_cache := c1\<rparr>)
                    | Inr r \<Rightarrow> Some (Inr r, H\<lparr>sfh_cache := c1\<rparr>))
               | None \<Rightarrow>
                   (case readFile W (fi_path fileInfo) of
                      None \<Rightarrow>
                        Some (sendError 500 ''Internal server error'' res, H\<lparr>sfh_cache := c1\<rparr>)
                    | Some content \<Rightarrow>
                        (let compressed =
                               (if fi_shouldCompress fileInfo then gzip L content else None)
                         in (case MemoryCache_set L c1 (fi_path fileInfo) content
                                    (fi_mimeType fileInfo) compressed
                                    (statSet W (fi_path fileInfo)) of
                               None \<Rightarrow> None
                             | Some (Inl ex) \<Rightarrow>
                                 Some (sendError 500 ''Internal server error'' res,
                                       H\<lparr>sfh_cache := c1\<rparr>)
                             | Some (Inr c2) \<Rightarrow>
                                 (case respond L req fileInfo content compressed res of
                                    Inl (ex, r) \<Rightarrow>
                                      Some (sendError 500 ''Internal server error'' r,
                                            H\<lparr>sfh_cache := c2\<rparr>)
                                  | Inr r \<Rightarrow> Some (Inr r, H\<lparr>sfh_cache := c2\<rparr>))))))))"

text \<open>
  \<open>StaticFileHandler.handleRequest\<close>: \<open>sanitizePath\<close> is called outside every \<open>try\<close>,
  so what it throws leaves the method.
\<close>

definition StaticFileHandler_handleRequest ::
  "libs \<Rightarrow> world \<Rightarrow> staticFileHandler \<Rightarrow> request \<Rightarrow> response
     \<Rightarrow> (outcome \<times> staticFileHandler) option" where
  "StaticFileHandler_handleRequest L W H req res =
     (let requestPath = requestTarget req
      in case sanitizePath L H requestPath of
           Inl ex \<Rightarrow> Some (Inl (ex, res), H)
         | Inr sanitizedPath \<Rightarrow> handleFileRequest L W H req res (drop 1 sanitizedPath))"

section \<open>server.ts\<close>

text \<open>
  The fields of the configuration the request path reads, and the collaborators that
  are not part of the modelled code: the two methods of the upload handler, each of
  which takes the request and works on the response.
\<close>

record serverConfig =
  cfg_cors :: bool
  cfg_rootDir :: string
  cfg_indexPath :: string

record uploadHandler =
  handleUpload :: "request \<Rightarrow> response \<Rightarrow> outcome"
  handleFileList :: "request \<Rightarrow> response \<Rightarrow> outcome"

record gzipStaticServer =
  config :: serverConfig
  fileHandler :: staticFileHandler
  uploads :: uploadHandler

text \<open>The constructor gives the file handler a cache of 100 MB.\<close>

definition GzipStaticServer_new :: "libs \<Rightarrow> serverConfig \<Rightarrow> uploadHandler \<Rightarrow> gzipStaticServer" where
  "GzipStaticServer_new L cfg up =
     \<lparr>config = cfg,
      fileHandler = StaticFileHandler_new L (cfg_rootDir cfg) (100 * 1024 * 1024) (cfg_indexPath cfg),
      uploads = up\<rparr>"

text \<open>
  \<open>setupCors\<close>: with CORS enabled an OPTIONS request is answered on the spot; the
  \<open>return\<close> leaves \<open>setupCors\<close> only, the caller goes on.
\<close>

definition setupCors :: "serverConfig \<Rightarrow> request \<Rightarrow> response \<Rightarrow> outcome" where
  "setupCors cfg req res =
     (if \<not> cfg_cors cfg then Inr res
      else
        doAll
          [setHeader ''Access-Control-Allow-Origin'' (HStr ''*''),
           setHeader ''Access-Control-Allow-Methods'' (HStr ''GET, HEAD, OPTIONS''),
           setHeader ''Access-Control-Allow-Headers''
             (HStr ''Range, Accept-Encoding, If-None-Match, If-Modified-Since''),
           (\<lambda>r. if req_method req = ''OPTIONS''
                then doAll [writeHead 200 [], res_end NoBody] r
                else Inr r)]
          res)"

text \<open>\<open>handleApiRequest\<close>: its own \<open>try\<close>, whose handler answers 500.\<close>

definition handleApiRequest :: "gzipStaticServer \<Rightarrow> request \<Rightarrow> string \<Rightarrow> response \<Rightarrow> outcome" where
  "handleApiRequest S req pathname res =
     (case
        doAll
          [setHeader ''Access-Control-Allow-Origin'' (HStr ''*''),
           setHeader ''Access-Control-Allow-Methods'' (HStr ''GET, POST, OPTIONS''),
           setHeader ''Access-Control-Allow-Headers'' (HStr ''Content-Type''),
           (\<lambda>r. if req_method req = ''OPTIONS'' then doAll [writeHead 200 [], res_end NoBody] r
                else if pathname = ''/api/upload'' then
                  (if req_method req = ''POST'' then handleUpload (uploads S) req r
                   else doAll [writeHead 405 [(''Allow'', HStr ''POST, OPTIONS'')],
                               res_end (Text ''Method Not Allowed'')] r)
                else if pathname = ''/api/files'' then
                  (if req_method req = ''GET'' then handleFileList (uploads S) req r
                   else doAll [writeHead 405 [(''Allow'', HStr ''GET, OPTIONS'')],
                               res_end (Text ''Method Not Allowed'')] r)
                else doAll [writeHead 404 [(''Content-Type'', HStr ''application/json'')],
                            res_end (Text ''{\"error\":\"API endpoint not found\"}'')] r)]
          res
      of
        Inl (ex, r) \<Rightarrow>
          doAll [writeHead 500 [(''Content-Type'', HStr ''application/json'')],
                 res_end (Text ''{\"error\":\"Internal server error\"}'')] r
      | Inr r \<Rightarrow> Inr r)"

text \<open>The handler of the \<open>try\<close> in \<open>handleRequest\<close>.\<close>

definition internalServerError :: "response \<Rightarrow> outcome" where
  "internalServerError r =
     doAll [writeHead 500 [(''Content-Type'', HStr ''text/plain'')],
            res_end (Text ''Internal Server Error'')] r"

text \<open>
  \<open>GzipStaticServer.handleRequest\<close>.  The list of middleware is empty: nothing calls
  the private \<open>addMiddleware\<close>.  The request counter \<open>this.stats.requests++\<close> and
  the log line do not affect the response and are left out: the server value below is
  the configuration, the file handler with its cache and the upload handler, not the
  statistics.
\<close>

definition GzipStaticServer_handleRequest ::
  "libs \<Rightarrow> world \<Rightarrow> gzipStaticServer \<Rightarrow> request \<Rightarrow> response
     \<Rightarrow> (outcome \<times> gzipStaticServer) option" where
  "GzipStaticServer_handleRequest L W S req res =
     (case
        doAll
          [setupCors (config S) req,
           setHeader ''X-Content-Type-Options'' (HStr ''nosniff''),
           setHeader ''X-Frame-Options'' (HStr ''DENY''),
           setHeader ''X-XSS-Protection'' (HStr ''1; mode=block''),
           setHeader ''Server'' (HStr ''Gzip-Static-Server/1.0.0'')]
          res
      of
        Inl (ex, r) \<Rightarrow> Some (internalServerError r, S)
      | Inr r \<Rightarrow>
          (case URLPathname L (requestTarget req) (urlBase req) of
             Inl ex \<Rightarrow> Some (internalServerError r, S)
           | Inr pathname \<Rightarrow>
               if startsWith pathname ''/api/'' then
                 (case handleApiRequest S req pathname r of
                    Inl (ex, r') \<Rightarrow> Some (internalServerError r', S)
                  | Inr r' \<Rightarrow> Some (Inr r', S))
               else if req_method req = ''GET'' \<or> req_method req = ''HEAD'' then
                 (case StaticFileHandler_handleRequest L W (fileHandler S) req r of
                    None \<Rightarrow> None
                  | Some (Inl (ex, r'), H') \<Rightarrow> Some (internalServerError r', S\<lparr>fileHandler := H'\<rparr>)
                  | Some (Inr r', H') \<Rightarrow> Some (Inr r', S\<lparr>fileHandler := H'\<rparr>))
               else
                 (case doAll [writeHead 405 [(''Allow'', HStr ''GET, HEAD, OPTIONS'')],
                              res_end (Text ''Method Not Allowed'')] r of
                    Inl (ex, r') \<Rightarrow> Some (internalServerError r', S)
                  | Inr r' \<Rightarrow> Some (Inr r', S))))"

text \<open>
  The listener installed by \<open>start\<close>: when \<open>handleRequest\<close> itself fails, a bare 500 is
  sent unless the head has been written.  The result is the response the client gets.
\<close>

definition requestListener ::
  "libs \<Rightarrow> world \<Rightarrow> gzipStaticServer \<Rightarrow> request \<Rightarrow> (response \<times> gzipStaticServer) option" where
  "requestListener L W S req =
     (case GzipStaticServer_handleRequest L W S req freshResponse of
        None \<Rightarrow> None
      | Some (Inr r, S') \<Rightarrow> Some (r, S')
      | Some (Inl (ex, r), S') \<Rightarrow>
          if \<not> headersSent r then
            (case doAll [writeHead 500 [], res_end (Text ''Internal Server Error'')] r of
               Inl (ex', r') \<Rightarrow> Some (r', S')
             | Inr r' \<Rightarrow> Some (r', S'))
          else Some (r, S'))"

section \<open>Sample collaborators for the concrete evaluations\<close>

text \<open>
  The evaluations below need the library functions at particular arguments.  The
  sample takes the MD5 digest of the empty buffer and the UTC string of time value 0
  for every argument, a two-byte stand-in for the gzip stream, the content type from
  the extension of the file name, and as pathname the target up to its first \<open>?\<close> or
  \<open>#\<close>, which is what both URL parsers return for a target made of letters, digits,
  \<open>/\<close>, \<open>-\<close>, \<open>_\<close> and \<open>%\<close> with at most a \<open>.\<close> inside a file name.
\<close>

definition sampleMime :: "string \<Rightarrow> string option" where
  "sampleMime p =
     map_of
       [(''html'', ''text/html''), (''txt'', ''text/plain''), (''json'', ''application/json''),
        (''svg'', ''image/svg+xml''), (''png'', ''image/png'')]
       (last (splitOn CHR ''.'' p))"

definition samplePathname :: "string \<Rightarrow> string" where
  "samplePathname s = takeWhile (\<lambda>c. c \<noteq> CHR ''?'' \<and> c \<noteq> CHR ''#'') s"

definition sampleLibs :: libs where
  "sampleLibs =
     \<lparr>md5hex = (\<lambda>b. ''d41d8cd98f00b204e9800998ecf8427e''),
      toUTCString = (\<lambda>t. ''Thu, 01 Jan 1970 00:00:00 GMT''),
      mimeLookup = sampleMime,
      gzip = (\<lambda>b. Some [31, 139]),
      urlParsePathname = (\<lambda>s. Inr (Some (samplePathname s))),
      URLPathname = (\<lambda>s base. Inr (samplePathname s)),
      cwd = ''/srv''\<rparr>"

text \<open>An upload handler that answers 200 with an empty body.\<close>

definition sampleUploads :: uploadHandler where
  "sampleUploads =
     \<lparr>handleUpload = (\<lambda>req r. doAll [writeHead 200 [], res_end NoBody] r),
      handleFileList = (\<lambda>req r. doAll [writeHead 200 [], res_end NoBody] r)\<rparr>"

text \<open>A filesystem that does not change during the request, given as a table.\<close>

definition steadyWorld :: "(string \<times> stats \<times> buffer) list \<Rightarrow> world" where
  "steadyWorld files =
     \<lparr>statResolve = (\<lambda>p. map_option fst (map_of files p)),
      readFile = (\<lambda>p. map_option snd (map_of files p)),
      statSet = (\<lambda>p. map_option fst (map_of files p))\<rparr>"

text \<open>
  A server over \<open>/srv/www\<close> without CORS; the directory holds an empty \<open>index.html\<close>
  and \<open>big.txt\<close>, 2000 letters \<open>a\<close>, both last modified at time value 0.
\<close>

definition sampleServer :: gzipStaticServer where
  "sampleServer =
     GzipStaticServer_new sampleLibs
       \<lparr>cfg_cors = False, cfg_rootDir = ''/srv/www'', cfg_indexPath = ''index.html''\<rparr>
       sampleUploads"

definition sampleWorld :: world where
  "sampleWorld =
     steadyWorld
       [(''/srv/www/index.html'', \<lparr>st_isFile = True, st_size = 0, st_mtime = 0\<rparr>, []),
        (''/srv/www/big.txt'', \<lparr>st_isFile = True, st_size = 2000, st_mtime = 0\<rparr>,
         replicate 2000 97),
        (''/etc/passwd'', \<lparr>st_isFile = True, st_size = 4, st_mtime = 0\<rparr>, [114, 111, 111, 116])]"

definition getRequest :: "string \<Rightarrow> (string \<times> string) list \<Rightarrow> request" where
  "getRequest target hs = \<lparr>req_method = ''GET'', req_url = target, req_headers = hs\<rparr>"


text \<open>The same directory when its files are gone by the time the cache is filled.\<close>

definition vanishingWorld :: world where
  "vanishingWorld = sampleWorld\<lparr>statSet := (\<lambda>p. None)\<rparr>"


definition indexInfo :: fileInfo where
  "indexInfo =
     \<lparr>fi_path = ''/srv/www/index.html'', fi_size = 0, fi_mtime = 0, fi_etag = ''\"0-0\"'',
      fi_mimeType = ''text/html'', fi_shouldCompress = False\<rparr>"

section \<open>Properties of the content-type classification\<close>

text \<open>
  Claim C3 says that a file of type \<open>image/svg+xml\<close> larger than the threshold is
  compressed.  In the code the non-compressible table is scanned first and its entry
  \<open>image/\<close> is a prefix of \<open>image/svg+xml\<close>, so both \<open>shouldCompressFile\<close> (whatever
  the size) and \<open>shouldCompress\<close> answer no; the entry \<open>image/svg+xml\<close> of the
  compressible tables is never reached.
\<close>

theorem svg_is_never_compressed:
  "shouldCompressFile ''image/svg+xml'' sz = False \<and> shouldCompress ''image/svg+xml'' = False"
  by (simp add: shouldCompressFile_def shouldCompress_def startsWithAny_def
      nonCompressibleTypes_static_def nonCompressibleTypes_def)

section \<open>Properties of the memory cache\<close>

lemma evictLoop_done:
  "\<not> (currentSize c + s > maxSize c \<and> cache c \<noteq> []) \<Longrightarrow> evictLoop c s = Some c"
  by (subst evictLoop.simps) auto

lemma evictLoop_step:
  "currentSize c + s > maxSize c \<Longrightarrow> cache c \<noteq> [] \<Longrightarrow>
     evictLoop c s = evictLoop (evictOldest c) s"
  by (subst evictLoop.simps) auto

lemma calculateSize_mkEntry:
  "calculateSize (mkEntry L content mimeType compressed st) = payloadSize content compressed"
  by (simp add: calculateSize_def mkEntry_def payloadSize_def)

text \<open>
  Claim C1 says that after every operation \<open>currentSize\<close> is the sum of the sizes of
  the entries present and at most \<open>maxSize\<close>, also when \<open>set\<close> overwrites a key and
  evicts during the same call.  Here a cache of capacity 10 receives \<open>/a\<close> with 6
  bytes, \<open>/b\<close> with 4 bytes and \<open>/a\<close> again with 8 bytes.  The last call subtracts the
  6 bytes of the old \<open>/a\<close>, then evicts that same entry, the oldest, and subtracts
  them again: \<open>currentSize\<close> ends at 6 while the entries present hold 12 bytes, more
  than \<open>maxSize\<close>.
\<close>

theorem overwrite_with_eviction_breaks_size_accounting:
  "map_option (\<lambda>c. (currentSize c, entriesSize c, maxSize c))
     (applyOps L (MemoryCache_new 10)
        [OpSet ''/a'' (replicate 6 0) ''text/plain'' None (Some sa),
         OpSet ''/b'' (replicate 4 0) ''text/plain'' None (Some sb),
         OpSet ''/a'' (replicate 8 0) ''text/plain'' None (Some sa')])
   = Some (6, 12, 10)"
  by (simp add: applyOp_def MemoryCache_set_def MemoryCache_new_def calculateSize_mkEntry
      payloadSize_def Map_get_def evictLoop_done evictLoop_step evictOldest_def Map_delete_def
      entriesSize_def Let_def)

subsection \<open>Where the accounting holds\<close>

text \<open>
  The eviction loop returns on a cache in order, and the accounting survives \<open>get\<close>,
  \<open>delete\<close> and a \<open>set\<close> on a key that is not present; the example above needs a
  \<open>set\<close> on a present key.
\<close>

lemma calculateSize_nonneg: "0 \<le> calculateSize e"
  by (simp add: calculateSize_def split: option.splits)

lemma sizes_nonneg: "0 \<le> sum_list (map (\<lambda>kv. calculateSize (snd kv)) m)"
  by (induction m) (simp_all add: calculateSize_nonneg)

lemma Map_delete_absent: "k \<notin> fst ` set m \<Longrightarrow> Map_delete m k = m"
  by (induction m) (auto simp: Map_delete_def)

lemma Map_set_absent: "k \<notin> fst ` set m \<Longrightarrow> Map_set m k v = m @ [(k, v)]"
  by (induction m) auto

lemma keys_Map_delete: "fst ` set (Map_delete m k) = fst ` set m - {k}"
  by (auto simp: Map_delete_def)

lemma distinct_Map_delete: "distinct (map fst m) \<Longrightarrow> distinct (map fst (Map_delete m k))"
  by (simp add: Map_delete_def distinct_map_filter)

lemma size_Map_delete:
  "distinct (map fst m) \<Longrightarrow> map_of m k = Some e \<Longrightarrow>
   sum_list (map (\<lambda>kv. calculateSize (snd kv)) (Map_delete m k)) =
   sum_list (map (\<lambda>kv. calculateSize (snd kv)) m) - calculateSize e"
proof (induction m)
  case Nil
  then show ?case by simp
next
  case (Cons a m)
  show ?case
  proof (cases "fst a = k")
    case True
    then have "k \<notin> fst ` set m" using Cons.prems by auto
    then show ?thesis using True Cons.prems Map_delete_absent [of k m]
      by (auto simp: Map_delete_def)
  next
    case False
    then show ?thesis using Cons by (auto simp: Map_delete_def)
  qed
qed

lemma map_of_None_keys: "map_of m k = None \<longleftrightarrow> k \<notin> fst ` set m"
  by (simp add: map_of_eq_None_iff)

lemma evictOldest_wf:
  assumes "cacheWf c" and "cache c \<noteq> []"
  shows "cacheWf (evictOldest c) \<and> length (cache (evictOldest c)) < length (cache c)
       \<and> maxSize (evictOldest c) = maxSize c
       \<and> set (map fst (cache (evictOldest c))) \<subseteq> set (map fst (cache c))"
proof -
  obtain k e rest where c: "cache c = (k, e) # rest"
    using assms(2) by (cases "cache c") auto
  have k: "k \<noteq> []" "k \<notin> fst ` set rest" "distinct (map fst rest)" "[] \<notin> fst ` set rest"
    using assms(1) by (auto simp: cacheWf_def c)
  have d: "Map_delete ((k, e) # rest) k = rest"
    using k(2) Map_delete_absent [of k rest] by (simp add: Map_delete_def)
  show ?thesis
    using assms(1) k
    by (auto simp: evictOldest_def c d cacheWf_def entriesSize_def)
qed

lemma evictLoop_returns:
  assumes "cacheWf c" and "0 \<le> s" and "s \<le> maxSize c"
  shows "\<exists>c'. evictLoop c s = Some c' \<and> cacheWf c' \<and> currentSize c' + s \<le> maxSize c'
              \<and> maxSize c' = maxSize c \<and> set (map fst (cache c')) \<subseteq> set (map fst (cache c))"
  using assms
proof (induction "length (cache c)" arbitrary: c rule: less_induct)
  case less
  show ?case
  proof (cases "currentSize c + s > maxSize c \<and> cache c \<noteq> []")
    case True
    from evictOldest_wf [OF less.prems(1)] True
    have e: "cacheWf (evictOldest c)" "length (cache (evictOldest c)) < length (cache c)"
      "maxSize (evictOldest c) = maxSize c"
      "set (map fst (cache (evictOldest c))) \<subseteq> set (map fst (cache c))"
      by simp_all
    from less.hyps [OF e(2) e(1) less.prems(2)] less.prems(3) e(3)
    obtain c' where "evictLoop (evictOldest c) s = Some c'" "cacheWf c'"
      "currentSize c' + s \<le> maxSize c'" "maxSize c' = maxSize c"
      "set (map fst (cache c')) \<subseteq> set (map fst (cache (evictOldest c)))"
      by auto
    then show ?thesis
      using True e(4) by (subst evictLoop.simps) auto
  next
    case False
    have "currentSize c + s \<le> maxSize c"
    proof (cases "cache c = []")
      case True
      then have "currentSize c = 0" using less.prems(1) by (simp add: cacheWf_def entriesSize_def)
      then show ?thesis using less.prems(3) by simp
    next
      case False
      then show ?thesis using \<open>\<not> (currentSize c + s > maxSize c \<and> cache c \<noteq> [])\<close> by simp
    qed
    then show ?thesis
      using False less.prems(1) by (subst evictLoop.simps) auto
  qed
qed

lemma set_absent_key_keeps_accounting:
  assumes wf: "cacheWf c" and path: "path \<noteq> []" and absent: "Map_get (cache c) path = None"
  shows "\<exists>c'. MemoryCache_set L c path content mimeType compressed (Some st) = Some (Inr c')
              \<and> cacheWf c' \<and> maxSize c' = maxSize c
              \<and> (currentSize c \<le> maxSize c \<longrightarrow> currentSize c' \<le> maxSize c')"
proof (cases "payloadSize content compressed > maxSize c")
  case True
  then show ?thesis
    using wf by (simp add: MemoryCache_set_def calculateSize_mkEntry Let_def)
next
  case False
  define s where "s = payloadSize content compressed"
  have s0: "0 \<le> s" by (simp add: s_def payloadSize_def split: option.splits)
  have sm: "s \<le> maxSize c" using False by (simp add: s_def)
  from evictLoop_returns [OF wf s0 sm] obtain c2 where
    c2: "evictLoop c s = Some c2" "cacheWf c2" "currentSize c2 + s \<le> maxSize c2"
        "maxSize c2 = maxSize c" "set (map fst (cache c2)) \<subseteq> set (map fst (cache c))"
    by blast
  have na: "path \<notin> fst ` set (cache c2)"
    using absent c2(5) by (auto simp: Map_get_def map_of_None_keys)
  show ?thesis
    using False absent c2 na path
    by (auto simp: MemoryCache_set_def calculateSize_mkEntry Let_def s_def [symmetric]
        Map_set_absent cacheWf_def entriesSize_def)
qed

lemma get_keeps_accounting:
  assumes "cacheWf c"
  shows "cacheWf (snd (MemoryCache_get c path)) \<and> currentSize (snd (MemoryCache_get c path)) = currentSize c
       \<and> maxSize (snd (MemoryCache_get c path)) = maxSize c"
proof (cases "Map_get (cache c) path")
  case None
  then show ?thesis using assms by (simp add: MemoryCache_get_def)
next
  case (Some e)
  have k: "path \<in> fst ` set (cache c)"
    using Some by (metis Map_get_def map_of_None_keys option.distinct(1))
  have na: "path \<notin> fst ` set (Map_delete (cache c) path)"
    by (simp add: keys_Map_delete)
  show ?thesis
    using assms Some k size_Map_delete [of "cache c" path e]
    by (auto simp: MemoryCache_get_def Map_set_absent [OF na] cacheWf_def entriesSize_def
        distinct_Map_delete keys_Map_delete Map_get_def)
qed

lemma delete_keeps_accounting:
  assumes "cacheWf c"
  shows "cacheWf (MemoryCache_delete c path) \<and> maxSize (MemoryCache_delete c path) = maxSize c
       \<and> currentSize (MemoryCache_delete c path) \<le> currentSize c"
proof (cases "Map_get (cache c) path")
  case None
  then show ?thesis using assms by (simp add: MemoryCache_delete_def)
next
  case (Some e)
  show ?thesis
    using assms Some size_Map_delete [of "cache c" path e] calculateSize_nonneg [of e]
    by (auto simp: MemoryCache_delete_def cacheWf_def entriesSize_def
        distinct_Map_delete keys_Map_delete Map_get_def)
qed

subsection \<open>Eviction order and oversized entries\<close>

text \<open>
  Claim C7: in a cache that holds exactly two entries of size \<open>s\<close>
  (\<open>2 * s \<le> maxSize < 3 * s\<close>), inserting A and B, reading A and inserting C leaves
  exactly A and C, in this order: B was evicted.  The keys are distinct file paths;
  the evicted key B is not the empty string, which is no file path and which
  \<open>evictOldest\<close> would skip.
\<close>

theorem lru_get_protects_entry:
  assumes "distinct [a, b, c]" and "b \<noteq> []"
    and "payloadSize ca za = s" and "payloadSize cb zb = s" and "payloadSize cc zc = s"
    and "2 * s \<le> m" and "m < 3 * s"
  shows "map_option cache
           (applyOps L (MemoryCache_new m)
              [OpSet a ca ma za (Some sa), OpSet b cb mb zb (Some sb), OpGet a,
               OpSet c cc mc zc (Some sc)])
         = Some [(a, mkEntry L ca ma za sa), (c, mkEntry L cc mc zc sc)]"
  using assms
  by (auto simp: applyOp_def MemoryCache_set_def MemoryCache_new_def calculateSize_mkEntry
      Map_get_def evictLoop_done evictLoop_step evictOldest_def Map_delete_def
      MemoryCache_get_def Let_def)

theorem lru_get_protects_entry_witness:
  "map_option cache
     (applyOps sampleLibs (MemoryCache_new 5)
        [OpSet ''/a'' [1, 2] ''text/plain'' None (Some \<lparr>st_isFile = True, st_size = 2, st_mtime = 0\<rparr>),
         OpSet ''/b'' [3, 4] ''text/plain'' None (Some \<lparr>st_isFile = True, st_size = 2, st_mtime = 0\<rparr>),
         OpGet ''/a'',
         OpSet ''/c'' [5] ''text/plain'' (Some [6]) (Some \<lparr>st_isFile = True, st_size = 1, st_mtime = 0\<rparr>)])
   = Some [(''/a'', mkEntry sampleLibs [1, 2] ''text/plain'' None \<lparr>st_isFile = True, st_size = 2, st_mtime = 0\<rparr>),
           (''/c'', mkEntry sampleLibs [5] ''text/plain'' (Some [6]) \<lparr>st_isFile = True, st_size = 1, st_mtime = 0\<rparr>)]"
  using lru_get_protects_entry [of "''/a''" "''/b''" "''/c''" "[1, 2]" None 2 "[3, 4]" None "[5]" "Some [6]" 5]
  by (simp add: payloadSize_def)

text \<open>
  Claim C8: a \<open>set\<close> whose entry is larger than \<open>maxSize\<close> leaves the cache exactly
  as it was.  The call returns the unchanged cache when its \<open>statSync\<close> succeeds and
  throws, before touching anything, when it does not.
\<close>

theorem oversized_entry_leaves_cache_unchanged:
  assumes "payloadSize content compressed > maxSize c"
  shows "MemoryCache_set L c path content mimeType compressed stat =
           Some (case stat of None \<Rightarrow> Inl StatError | Some st \<Rightarrow> Inr c)
         \<and> applyOp L c (OpSet path content mimeType compressed stat) = Some c"
  using assms
  by (simp add: applyOp_def MemoryCache_set_def calculateSize_mkEntry Let_def split: option.splits)

theorem oversized_entry_leaves_cache_unchanged_witness:
  "MemoryCache_set sampleLibs (MemoryCache_new 4) ''/a'' [1, 2, 3] ''text/plain'' (Some [4, 5])
     (Some \<lparr>st_isFile = True, st_size = 3, st_mtime = 0\<rparr>) = Some (Inr (MemoryCache_new 4))
   \<and> applyOp sampleLibs (MemoryCache_new 4)
       (OpSet ''/a'' [1, 2, 3] ''text/plain'' (Some [4, 5])
          (Some \<lparr>st_isFile = True, st_size = 3, st_mtime = 0\<rparr>)) = Some (MemoryCache_new 4)"
  using oversized_entry_leaves_cache_unchanged
    [of "MemoryCache_new 4" "[1, 2, 3]" "Some [4, 5]" sampleLibs "''/a''" "''text/plain''"
       "Some \<lparr>st_isFile = True, st_size = 3, st_mtime = 0\<rparr>"]
  by (simp add: payloadSize_def MemoryCache_new_def)

section \<open>Properties of path resolution\<close>

lemma startsWith_append: "startsWith (p @ s) p"
  by (induction p) auto

lemma startsWith_self: "startsWith p p"
  using startsWith_append [of p "[]"] by simp

lemma joinSlash_startsWith_head: "startsWith (joinSlash (x # xs)) x"
  by (cases xs) (simp_all add: startsWith_append startsWith_self)

lemma commonLen_le: "commonLen xs ys \<le> length xs"
  by (induction xs ys rule: commonLen.induct) auto

lemma commonLen_take: "take (commonLen xs ys) xs = take (commonLen xs ys) ys"
  by (induction xs ys rule: commonLen.induct) auto

text \<open>
  A relative path that does not begin with \<open>..\<close> climbs out of no segment of the root:
  the target lies within the root.
\<close>

lemma relative_inside:
  assumes "\<not> startsWith (path_relative wd root p) ''..''"
  shows "withinRoot wd root p"
proof (cases "root = p \<or> path_resolve wd root = path_resolve wd p")
  case True
  then show ?thesis by (auto simp: withinRoot_def)
next
  case False
  define fs where "fs = segments (path_resolve wd root)"
  define ts where "ts = segments (path_resolve wd p)"
  define k where "k = commonLen fs ts"
  have rel: "path_relative wd root p = joinSlash (replicate (length fs - k) ''..'' @ drop k ts)"
    using False by (simp add: path_relative_def Let_def fs_def ts_def k_def)
  have "length fs - k = 0"
  proof (rule ccontr)
    assume "length fs - k \<noteq> 0"
    then obtain n where n: "length fs - k = Suc n" by (cases "length fs - k") auto
    have "startsWith (path_relative wd root p) ''..''"
      by (simp only: rel n replicate_Suc append_Cons joinSlash_startsWith_head)
    with assms show False by simp
  qed
  then have "k = length fs"
    using commonLen_le [of fs ts] by (simp add: k_def)
  then have "fs = take (length fs) ts"
    using commonLen_take [of fs ts] by (simp add: k_def)
  then have "prefix fs ts"
    by (metis take_is_prefix)
  then show ?thesis by (simp add: withinRoot_def fs_def ts_def)
qed

lemma sendError_fresh:
  "\<not> headersSent res \<Longrightarrow> ended res = None \<Longrightarrow>
   sendError status msg res =
     Inr (res\<lparr>statusCode := status,
               res_headers := Map_set (res_headers res) ''Content-Type'' (HStr ''text/plain''),
               headersSent := True, ended := Some (Text msg)\<rparr>)"
  by (simp add: sendError_def andThen_def writeHead_def res_end_def)

lemma getFileInfo_within:
  assumes "getFileInfo L W H filePath = Some fi"
  shows "fi_path fi = path_join (rootDir H) filePath
       \<and> withinRoot (cwd L) (rootDir H) (fi_path fi)
       \<and> map_option st_isFile (statResolve W (fi_path fi)) = Some True"
  using assms
  by (auto simp: getFileInfo_def Let_def relative_inside split: option.splits if_splits)

text \<open>
  Claim C6: whatever the path handed to \<open>getFileInfo\<close> (with \<open>..\<close> segments, decoded
  from escapes or not), either it returns a file, and then this file is the joined
  path, lies within \<open>rootDir\<close> and is a regular file according to \<open>statSync\<close>, or it
  returns \<open>null\<close>, and then \<open>handleFileRequest\<close> answers 404 and leaves the handler
  as it was.
\<close>

theorem resolved_file_stays_within_root:
  assumes "\<not> headersSent res" and "ended res = None"
  shows "case getFileInfo L W H filePath of
           Some fi \<Rightarrow>
             fi_path fi = path_join (rootDir H) filePath
             \<and> withinRoot (cwd L) (rootDir H) (fi_path fi)
             \<and> map_option st_isFile (statResolve W (fi_path fi)) = Some True
         | None \<Rightarrow>
             handleFileRequest L W H req res filePath =
               Some (Inr (res\<lparr>statusCode := 404,
                               res_headers := Map_set (res_headers res) ''Content-Type''
                                                (HStr ''text/plain''),
                               headersSent := True, ended := Some (Text ''File not found'')\<rparr>),
                     H)"
proof (cases "getFileInfo L W H filePath")
  case None
  then show ?thesis
    using assms by (simp add: handleFileRequest_def sendError_fresh)
next
  case (Some fi)
  show ?thesis
    unfolding Some option.case by (rule getFileInfo_within [OF Some])
qed

text \<open>
  The file \<open>/etc/passwd\<close> exists in the sample world, outside the root \<open>/srv/www\<close>:
  the path that climbs to it is answered 404.
\<close>

theorem resolved_file_stays_within_root_witness:
  "getFileInfo sampleLibs sampleWorld (fileHandler sampleServer) ''../../etc/passwd'' = None
   \<and> handleFileRequest sampleLibs sampleWorld (fileHandler sampleServer)
       (getRequest ''/../../etc/passwd'' []) freshResponse ''../../etc/passwd'' =
     Some (Inr (freshResponse
                 \<lparr>statusCode := 404,
                  res_headers := Map_set (res_headers freshResponse) ''Content-Type''
                                   (HStr ''text/plain''),
                  headersSent := True, ended := Some (Text ''File not found'')\<rparr>),
           fileHandler sampleServer)"
proof -
  have g: "getFileInfo sampleLibs sampleWorld (fileHandler sampleServer) ''../../etc/passwd'' = None"
    by code_simp
  have f1: "\<not> headersSent freshResponse" and f2: "ended freshResponse = None"
    by (simp_all add: freshResponse_def)
  show ?thesis
    using resolved_file_stays_within_root
      [OF f1 f2, where L = sampleLibs and W = sampleWorld and H = "fileHandler sampleServer"
         and filePath = "''../../etc/passwd''" and req = "getRequest ''/../../etc/passwd'' []"]
    by (simp add: g)
qed

text \<open>A path with dot segments that stays inside the root is resolved inside it.\<close>

lemma dot_segments_inside_root:
  "getFileInfo sampleLibs sampleWorld (fileHandler sampleServer) ''a/../index.html'' = Some indexInfo
   \<and> withinRoot ''/srv'' ''/srv/www'' (fi_path indexInfo)"
proof -
  have g: "getFileInfo sampleLibs sampleWorld (fileHandler sampleServer) ''a/../index.html'' =
             Some indexInfo"
    by code_simp
  have r: "rootDir (fileHandler sampleServer) = ''/srv/www''"
    by code_simp
  have w: "cwd sampleLibs = ''/srv''"
    by (simp add: sampleLibs_def)
  note t = getFileInfo_within [OF g]
  have a: "withinRoot ''/srv'' ''/srv/www'' (fi_path indexInfo)"
    using t [THEN conjunct2, THEN conjunct1] by (simp add: r w)
  from g a show ?thesis by blast
qed

section \<open>Properties of the static file handler\<close>

lemma map_of_Map_set: "map_of (Map_set m k v) k' = (if k' = k then Some v else map_of m k')"
  by (induction m) auto

lemma Map_get_promote:
  "Map_get (Map_set (Map_delete m k) k e) k' = (if k' = k then Some e else Map_get m k')"
  by (induction m) (auto simp: Map_get_def Map_delete_def map_of_Map_set)

lemma isModified_after_get:
  "isModified (snd (MemoryCache_get c p)) p t = isModified c p t"
  by (auto simp: MemoryCache_get_def isModified_def Map_get_promote split: option.splits)



text \<open>
  Claim C2 says that a 200 response carries \<open>Content-Encoding: gzip\<close> exactly when it
  carries the compressed bytes, that is when a compressed form exists and the client
  accepts gzip.  The sample server is asked for \<open>big.txt\<close> (2000 bytes of text, so a
  compressed form is made) by a client that sends no \<open>Accept-Encoding\<close>: the answer is
  200 with the header \<open>Content-Encoding: gzip\<close> and the 2000 raw bytes as body.
\<close>

theorem gzip_header_on_raw_body:
  "map_option (\<lambda>x. (statusCode (fst x), map_of (res_headers (fst x)) ''Content-Encoding'',
                    ended (fst x)))
     (requestListener sampleLibs sampleWorld sampleServer (getRequest ''/big.txt'' []))
   = Some (200, Some (HStr ''gzip''), Some (Bytes (replicate 2000 97)))"
  by code_simp




text \<open>
  Claim C10: \<open>set\<close> begins with \<open>statSync\<close> on its key and throws when that fails; a
  request that resolved the file, missed the cache and read the bytes is then answered
  500 by the handler of the \<open>try\<close>, and the cache keeps no entry for the bytes read.
\<close>

theorem stat_failure_in_set_gives_500:
  assumes fi: "getFileInfo L W H filePath = Some fi"
    and miss: "isModified (sfh_cache H) (fi_path fi) (fi_mtime fi)"
    and rd: "readFile W (fi_path fi) = Some content"
    and st: "statSet W (fi_path fi) = None"
    and fresh: "\<not> headersSent res" "ended res = None"
  shows "MemoryCache_set L c (fi_path fi) content mt z (statSet W (fi_path fi)) = Some (Inl StatError)
    \<and> handleFileRequest L W H req res filePath =
       Some (Inr (res\<lparr>statusCode := 500,
                       res_headers := Map_set (res_headers res) ''Content-Type'' (HStr ''text/plain''),
                       headersSent := True, ended := Some (Text ''Internal server error'')\<rparr>),
             H\<lparr>sfh_cache := snd (MemoryCache_get (sfh_cache H) (fi_path fi))\<rparr>)"
proof -
  have set_throws:
    "MemoryCache_set L c' (fi_path fi) content mt' z' (statSet W (fi_path fi)) = Some (Inl StatError)"
    for c' mt' z'
    by (simp add: MemoryCache_set_def st)
  obtain ce c1 where g: "MemoryCache_get (sfh_cache H) (fi_path fi) = (ce, c1)"
    by (cases "MemoryCache_get (sfh_cache H) (fi_path fi)")
  have m1: "isModified c1 (fi_path fi) (fi_mtime fi)"
    using isModified_after_get [of "sfh_cache H" "fi_path fi" "fi_mtime fi"] miss g by simp
  show ?thesis
    using set_throws
    by (simp add: handleFileRequest_def fi g m1 rd sendError_fresh fresh split: option.splits)
qed

theorem stat_failure_in_set_gives_500_witness:
  "MemoryCache_set sampleLibs (MemoryCache_new 4) ''/srv/www/index.html'' [] ''text/plain'' None
     (statSet vanishingWorld ''/srv/www/index.html'') = Some (Inl StatError)
   \<and> handleFileRequest sampleLibs vanishingWorld (fileHandler sampleServer) (getRequest ''/'' [])
       freshResponse ''index.html'' =
     Some (Inr (freshResponse
                 \<lparr>statusCode := 500,
                  res_headers := Map_set (res_headers freshResponse) ''Content-Type''
                                   (HStr ''text/plain''),
                  headersSent := True, ended := Some (Text ''Internal server error'')\<rparr>),
           (fileHandler sampleServer)
             \<lparr>sfh_cache := snd (MemoryCache_get (sfh_cache (fileHandler sampleServer))
                                  ''/srv/www/index.html'')\<rparr>)"
proof -
  have g: "getFileInfo sampleLibs vanishingWorld (fileHandler sampleServer) ''index.html'' = Some indexInfo"
    by code_simp
  have m: "isModified (sfh_cache (fileHandler sampleServer)) (fi_path indexInfo) (fi_mtime indexInfo)"
    by code_simp
  have rd: "readFile vanishingWorld (fi_path indexInfo) = Some []"
    by code_simp
  have st: "statSet vanishingWorld (fi_path indexInfo) = None"
    by (simp add: vanishingWorld_def)
  have f1: "\<not> headersSent freshResponse" and f2: "ended freshResponse = None"
    by (simp_all add: freshResponse_def)
  have p: "fi_path indexInfo = ''/srv/www/index.html''"
    by (simp add: indexInfo_def)
  show ?thesis
    using stat_failure_in_set_gives_500 [OF g m rd st f1 f2] unfolding p .
qed

section \<open>Properties of the server\<close>

text \<open>
  Unless CORS answers an OPTIONS request on the spot, the statements before the routing
  leave a response whose head has not been written.
\<close>

lemma preamble:
  assumes "\<not> (cfg_cors cfg \<and> req_method req = ''OPTIONS'')"
  shows "\<exists>r. doAll [setupCors cfg req,
                    setHeader ''X-Content-Type-Options'' (HStr ''nosniff''),
                    setHeader ''X-Frame-Options'' (HStr ''DENY''),
                    setHeader ''X-XSS-Protection'' (HStr ''1; mode=block''),
                    setHeader ''Server'' (HStr ''Gzip-Static-Server/1.0.0'')] freshResponse = Inr r
             \<and> \<not> headersSent r \<and> ended r = None \<and> map_of (res_headers r) ''Allow'' = None"
  using assms
  by (cases "cfg_cors cfg")
     (simp_all add: setupCors_def setHeader_def andThen_def freshResponse_def)



text \<open>
  Claim C9: a request whose URL parses to a pathname outside \<open>/api/\<close> and whose method
  is neither GET nor HEAD is answered 405 with \<open>Allow: GET, HEAD, OPTIONS\<close>, unless it
  is an OPTIONS request that CORS has answered already.
\<close>

theorem other_methods_get_405:
  assumes "URLPathname L (requestTarget req) (urlBase req) = Inr pathname"
    and "\<not> startsWith pathname ''/api/''"
    and "req_method req \<noteq> ''GET''" and "req_method req \<noteq> ''HEAD''"
    and "\<not> (cfg_cors (config S) \<and> req_method req = ''OPTIONS'')"
  shows "\<exists>r. requestListener L W S req = Some (r, S)
             \<and> statusCode r = 405
             \<and> map_of (res_headers r) ''Allow'' = Some (HStr ''GET, HEAD, OPTIONS'')
             \<and> ended r = Some (Text ''Method Not Allowed'')"
proof -
  from preamble [OF assms(5)] obtain r0 where
    r0: "doAll [setupCors (config S) req,
                setHeader ''X-Content-Type-Options'' (HStr ''nosniff''),
                setHeader ''X-Frame-Options'' (HStr ''DENY''),
                setHeader ''X-XSS-Protection'' (HStr ''1; mode=block''),
                setHeader ''Server'' (HStr ''Gzip-Static-Server/1.0.0'')] freshResponse = Inr r0"
    and fresh: "\<not> headersSent r0" "ended r0 = None"
    by blast
  have "GzipStaticServer_handleRequest L W S req freshResponse =
          Some (Inr (r0\<lparr>statusCode := 405,
                        res_headers := Map_set (res_headers r0) ''Allow'' (HStr ''GET, HEAD, OPTIONS''),
                        headersSent := True, ended := Some (Text ''Method Not Allowed'')\<rparr>), S)"
    unfolding GzipStaticServer_handleRequest_def r0
    using assms(1-4) fresh
    by (simp add: andThen_def writeHead_def res_end_def)
  then show ?thesis
    by (simp add: requestListener_def map_of_Map_set)
qed

theorem other_methods_get_405_witness:
  "\<exists>r. requestListener sampleLibs sampleWorld sampleServer
          \<lparr>req_method = ''POST'', req_url = ''/index.html'', req_headers = []\<rparr> = Some (r, sampleServer)
       \<and> statusCode r = 405
       \<and> map_of (res_headers r) ''Allow'' = Some (HStr ''GET, HEAD, OPTIONS'')
       \<and> ended r = Some (Text ''Method Not Allowed'')"
  by (rule other_methods_get_405 [where pathname = "''/index.html''"])
     (simp_all add: sampleLibs_def samplePathname_def requestTarget_def sampleServer_def
        GzipStaticServer_new_def)




end
